theory Spec2Isabelle
  imports Complex_Main
begin

section \<open>IVIM model fitting (dipy/reconst/ivim.py)\<close>

text \<open>
  Python floats are modelled as the real numbers: rounding, overflow to \<open>inf\<close> and
  \<open>nan\<close> are outside the model. One-dimensional numpy arrays are lists of reals.
  Every exception the source can raise is a value of the type \<open>error\<close>; a function
  that can raise returns \<open>error + 'a\<close>, with \<open>Inl\<close> for the exception.
\<close>

subsection \<open>Errors\<close>

datatype error =
    ValueError_no_b0           \<comment> \<open>"No measured signal at bvalue == 0. ..."\<close>
  | ValueError_bounds          \<comment> \<open>"Scipy versions less than 0.17 do not support bounds. ..."\<close>
  | ValueError_unpack          \<comment> \<open>tuple unpacking of a sequence of the wrong length\<close>
  | ValueError_broadcast       \<comment> \<open>numpy: operands could not be broadcast together\<close>
  | ValueError_sequence        \<comment> \<open>numpy: setting an array element with a sequence\<close>
  | IndexError                 \<comment> \<open>raised by \<open>__getitem__\<close> and by numpy indexing\<close>
  | ValueError_slice_step      \<comment> \<open>"slice step cannot be zero"\<close>
  | KeyError string            \<comment> \<open>a missing key of the options dictionary\<close>
  | NotFinite                  \<comment> \<open>numpy goes on with \<open>-inf\<close> or \<open>nan\<close>; the real model stops\<close>
  | External string            \<comment> \<open>an exception raised by a collaborator (numpy, scipy)\<close>

definition ebind :: "error + 'a \<Rightarrow> ('a \<Rightarrow> error + 'b) \<Rightarrow> error + 'b" where
  "ebind m k = (case m of Inl e \<Rightarrow> Inl e | Inr v \<Rightarrow> k v)"

text \<open>A list of results is a result: the first error, or all the values.\<close>

fun esequence :: "(error + 'a) list \<Rightarrow> error + 'a list" where
  "esequence [] = Inr []"
| "esequence (x # xs) = ebind x (\<lambda>v. ebind (esequence xs) (\<lambda>vs. Inr (v # vs)))"

subsection \<open>Gradient table\<close>

text \<open>
  Modelled from the spec: the class \<open>GradientTable\<close> of \<open>dipy.core.gradients\<close> is not
  among the sources. The spec gives it as read-only access to the ordered b-values, the
  gradient directions and a boolean mask of the b0 acquisitions; only these three
  attributes are read by ivim.py.
\<close>

record GradientTable =
  bvals :: "real list"
  bvecs :: "(real \<times> real \<times> real) list"
  b0s_mask :: "bool list"

subsection \<open>numpy arithmetic on one-dimensional arrays\<close>

text \<open>A scalar combined with an array acts on every element.\<close>

definition np_neg :: "real list \<Rightarrow> real list" where
  "np_neg a = map uminus a"

definition np_mul_scalar :: "real list \<Rightarrow> real \<Rightarrow> real list" where
  "np_mul_scalar a c = map (\<lambda>x. x * c) a"

definition np_scalar_mul :: "real \<Rightarrow> real list \<Rightarrow> real list" where
  "np_scalar_mul c a = map (\<lambda>x. c * x) a"

definition np_exp :: "real list \<Rightarrow> real list" where
  "np_exp a = map exp a"

text \<open>
  Two arrays combine elementwise when their lengths agree; an array of length one is
  broadcast against the other; any other pair of lengths raises.
\<close>

definition np_binop :: "(real \<Rightarrow> real \<Rightarrow> real) \<Rightarrow> real list \<Rightarrow> real list \<Rightarrow> error + real list" where
  "np_binop f a b =
     (if length a = length b then Inr (map2 f a b)
      else if length a = 1 then Inr (map (\<lambda>y. f (hd a) y) b)
      else if length b = 1 then Inr (map (\<lambda>x. f x (hd b)) a)
      else Inl ValueError_broadcast)"

definition np_add :: "real list \<Rightarrow> real list \<Rightarrow> error + real list" where
  "np_add = np_binop (+)"

definition np_sub :: "real list \<Rightarrow> real list \<Rightarrow> error + real list" where
  "np_sub = np_binop (-)"

subsection \<open>Signal model and residual\<close>

text \<open>
  \<^verbatim>\<open>S0, f, D_star, D = params\<close> raises unless \<open>params\<close> has exactly four elements.
  The keyword argument \<open>S0\<close> of the source is never read and is left out.
\<close>

definition ivim_prediction :: "real list \<Rightarrow> GradientTable \<Rightarrow> error + real list" where
  "ivim_prediction params gtab =
     (case params of
        [S0, f, D_star, D] \<Rightarrow>
          (let b = bvals gtab in
           ebind (np_add (np_scalar_mul f (np_exp (np_mul_scalar (np_neg b) D_star)))
                         (np_scalar_mul (1 - f) (np_exp (np_mul_scalar (np_neg b) D))))
             (\<lambda>s. Inr (np_scalar_mul S0 s)))
      | _ \<Rightarrow> Inl ValueError_unpack)"

definition ivim_error :: "real list \<Rightarrow> GradientTable \<Rightarrow> real list \<Rightarrow> error + real list" where
  "ivim_error params gtab signal =
     ebind (ivim_prediction params gtab) (\<lambda>p. np_sub signal p)"

text \<open>The formula of the spec, written from its words, for comparison.\<close>

definition ivim_formula :: "real \<Rightarrow> real \<Rightarrow> real \<Rightarrow> real \<Rightarrow> real \<Rightarrow> real" where
  "ivim_formula S0 f D_star D b = S0 * (f * exp (- b * D_star) + (1 - f) * exp (- b * D))"

text \<open>
  The residual of the scalar sub-fit. The solver hands \<open>D_star\<close> over as an array of
  length one, which numpy broadcasts against the b-values.
  \<^verbatim>\<open>S0, f, D = other_params\<close> raises unless there are exactly three values.
\<close>

definition D_star_prediction :: "real list \<Rightarrow> GradientTable \<Rightarrow> real list \<Rightarrow> error + real list" where
  "D_star_prediction D_star gtab other_params =
     (case other_params of
        [S0, f, D] \<Rightarrow>
          (let b = bvals gtab in
           ebind (np_binop (*) (np_neg b) D_star) (\<lambda>bd.
           ebind (np_add (np_scalar_mul f (np_exp bd))
                         (np_scalar_mul (1 - f) (np_exp (np_mul_scalar (np_neg b) D))))
             (\<lambda>s. Inr (np_scalar_mul S0 s))))
      | _ \<Rightarrow> Inl ValueError_unpack)"

definition D_star_error :: "real list \<Rightarrow> GradientTable \<Rightarrow> real list \<Rightarrow> real list \<Rightarrow> error + real list" where
  "D_star_error D_star gtab signal other_params =
     (case other_params of
        [S0, f, D] \<Rightarrow> ebind (D_star_prediction D_star gtab other_params) (\<lambda>p. np_sub signal p)
      | _ \<Rightarrow> Inl ValueError_unpack)"

subsection \<open>Bounds and the model object\<close>

text \<open>A bound is a real number or one of the two infinities (\<open>np.inf\<close>).\<close>

datatype ext = MInf | Fin real | PInf

type_synonym bounds = "ext list \<times> ext list"

definition default_bounds :: bounds where
  "default_bounds = ([Fin 0, Fin 0, Fin 0, Fin 0], [PInf, Fin 1, Fin (5/100), Fin (5/1000)])"

definition tight_bounds :: bounds where
  "tight_bounds = ([Fin 0, Fin 0, Fin 0, Fin 0], [PInf, Fin 1, Fin (1/100), Fin (1/1000)])"

record IvimModel =
  gtab :: GradientTable
  split_b :: real
  bounds :: "bounds option"
  tol :: real
  options :: "string \<rightharpoonup> real"
  method_name :: string

definition np_any :: "bool list \<Rightarrow> bool" where
  "np_any bs = list_ex (\<lambda>x. x) bs"

text \<open>
  \<open>IvimModel.__init__\<close>. The first argument is the module constant \<open>SCIPY_LESS_0_17\<close>.
  The constructor only asks whether the \<open>bounds\<close> argument is \<open>None\<close>, so the argument
  may be of any type.
\<close>

definition IvimModel_init ::
  "bool \<Rightarrow> GradientTable \<Rightarrow> real \<Rightarrow> string \<Rightarrow> 'b option \<Rightarrow> real \<Rightarrow> (string \<rightharpoonup> real) \<Rightarrow> error + IvimModel" where
  "IvimModel_init SCIPY_LESS_0_17 g split meth bnds xtol opts =
     (if \<not> np_any (b0s_mask g) then Inl ValueError_no_b0
      else if SCIPY_LESS_0_17 \<and> bnds \<noteq> None then Inl ValueError_bounds
      else Inr \<lparr>gtab = g, split_b = split, bounds = Some default_bounds, tol = xtol,
                options = opts, method_name = meth\<rparr>)"

subsection \<open>Arrays of any dimension and numpy indexing\<close>

text \<open>
  An array is a scalar (dimension 0) or a sequence of sub-arrays. \<open>Arr s xs\<close> carries the
  shape \<open>s\<close> its elements have, so that an empty array still has a full shape, as numpy's
  \<open>shape\<close> attribute does.
\<close>

datatype nd = Scalar real | Arr "nat list" "nd list"

fun shape :: "nd \<Rightarrow> nat list" where
  "shape (Scalar r) = []"
| "shape (Arr s xs) = length xs # s"

definition ndim :: "nd \<Rightarrow> nat" where
  "ndim a = length (shape a)"


definition nd_of_list :: "real list \<Rightarrow> nd" where
  "nd_of_list xs = Arr [] (map Scalar xs)"

text \<open>
  The items of an index, as numpy reads them: an integer; a slice \<open>start:stop:step\<close>, any
  part of which may be left out (\<open>slice(None)\<close> is \<open>Slice None None None\<close>); the ellipsis;
  \<open>newaxis\<close> (\<open>None\<close>); an array of integers and an array of booleans, each given by its
  shape and its entries in row-major order (a list used as an index is such an array, a
  plain \<open>True\<close> or \<open>False\<close> is a boolean array of dimension 0). An index is a single item
  or a tuple of items.
\<close>

datatype item =
    Ix int
  | Slice "int option" "int option" "int option"
  | Ellipsis
  | NewAxis
  | IntArr "nat list" "int list"
  | BoolArr "nat list" "bool list"

datatype index = Single item | Tuple "item list"

abbreviation full_slice :: item where
  "full_slice \<equiv> Slice None None None"

text \<open>Python resolves an integer index against a length \<open>n\<close>; outside \<open>[-n, n)\<close> it raises.\<close>

definition int_index :: "nat \<Rightarrow> int \<Rightarrow> error + nat" where
  "int_index n i =
     (if 0 \<le> i \<and> i < int n then Inr (nat i)
      else if i < 0 \<and> - int n \<le> i then Inr (nat (i + int n))
      else Inl IndexError)"

text \<open>
  \<open>slice.indices\<close>: a missing step is 1; a start or stop that is given is counted from the
  end when negative and then clipped, a missing one is the end the step starts from or
  runs to; the positions are \<open>start\<close>, \<open>start + step\<close>, ... short of \<open>stop\<close>. A step of 0
  is refused before any of this is used.
\<close>

definition slice_step :: "int option \<Rightarrow> int" where
  "slice_step c = (case c of None \<Rightarrow> 1 | Some k \<Rightarrow> k)"

definition slice_adjust :: "nat \<Rightarrow> int \<Rightarrow> int \<Rightarrow> int" where
  "slice_adjust n step i =
     (if i < 0 then (if i + int n < 0 then (if step < 0 then - 1 else 0) else i + int n)
      else if int n \<le> i then (if step < 0 then int n - 1 else int n)
      else i)"

definition slice_start :: "nat \<Rightarrow> int \<Rightarrow> int option \<Rightarrow> int" where
  "slice_start n step a =
     (case a of None \<Rightarrow> (if step < 0 then int n - 1 else 0) | Some i \<Rightarrow> slice_adjust n step i)"

definition slice_stop :: "nat \<Rightarrow> int \<Rightarrow> int option \<Rightarrow> int" where
  "slice_stop n step b =
     (case b of None \<Rightarrow> (if step < 0 then - 1 else int n) | Some i \<Rightarrow> slice_adjust n step i)"

definition slice_len :: "int \<Rightarrow> int \<Rightarrow> int \<Rightarrow> nat" where
  "slice_len start stop step =
     (if step < 0 then (if stop < start then nat ((start - stop - 1) div (- step) + 1) else 0)
      else (if start < stop then nat ((stop - start - 1) div step + 1) else 0))"

definition slice_indices :: "nat \<Rightarrow> int option \<Rightarrow> int option \<Rightarrow> int option \<Rightarrow> nat list" where
  "slice_indices n a b c =
     (let step = slice_step c; start = slice_start n step a; stop = slice_stop n step b
      in map (\<lambda>k. nat (start + int k * step)) [0..<slice_len start stop step])"

definition py_slice :: "'a list \<Rightarrow> int option \<Rightarrow> int option \<Rightarrow> int option \<Rightarrow> 'a list" where
  "py_slice xs a b c = map (\<lambda>i. xs ! i) (slice_indices (length xs) a b c)"

text \<open>
  The number of axes an item stands for: none for the ellipsis and \<open>newaxis\<close>, one for an
  integer, a slice and an array of integers, and as many as it has itself for a boolean
  array.
\<close>

fun consumes :: "item \<Rightarrow> nat" where
  "consumes (Ix i) = 1"
| "consumes (Slice a b c) = 1"
| "consumes Ellipsis = 0"
| "consumes NewAxis = 0"
| "consumes (IntArr p d) = 1"
| "consumes (BoolArr p d) = length p"

definition used :: "item list \<Rightarrow> nat" where
  "used its = sum_list (map consumes its)"

fun is_array :: "item \<Rightarrow> bool" where
  "is_array (IntArr p d) = True"
| "is_array (BoolArr p d) = True"
| "is_array it = False"


text \<open>
  Before anything is selected numpy reads the whole index: a second ellipsis raises, more
  axes asked for than the array has raise, and the ellipsis stands for as many full slices
  as axes are left over. Without an ellipsis the axes left over stay whole at the end.
\<close>

fun expand :: "nat \<Rightarrow> item list \<Rightarrow> item list" where
  "expand k [] = []"
| "expand k (Ellipsis # its) = replicate k full_slice @ its"
| "expand k (it # its) = it # expand k its"

definition np_prepare :: "nat \<Rightarrow> item list \<Rightarrow> error + item list" where
  "np_prepare n its =
     (if 1 < count_list its Ellipsis then Inl IndexError
      else if n < used its then Inl IndexError
      else Inr (expand (n - used its) its))"

text \<open>
  Basic indexing (no index array): the items are taken from left to right, an integer
  picks an entry of its axis and must lie in range, a slice keeps the entries at its
  positions, \<open>newaxis\<close> adds an axis of length 1. Whether the index is accepted, and the
  shape of what it selects, depend on the shape alone. The ellipsis has been replaced
  before, and index arrays go the other way, so the last equation of \<open>index_shape\<close> and
  of \<open>select\<close> is reached only with more integers and slices than axes, which the
  reading of the index has refused before.
\<close>

fun index_shape :: "nat list \<Rightarrow> item list \<Rightarrow> error + nat list" where
  "index_shape s [] = Inr s"
| "index_shape s (NewAxis # its) = ebind (index_shape s its) (\<lambda>t. Inr (1 # t))"
| "index_shape (n # s) (Ix i # its) = ebind (int_index n i) (\<lambda>_. index_shape s its)"
| "index_shape (n # s) (Slice a b c # its) =
     (if c = Some 0 then Inl ValueError_slice_step
      else ebind (index_shape s its) (\<lambda>t. Inr (length (slice_indices n a b c) # t)))"
| "index_shape s (it # its) = Inl IndexError"

definition sub_shape :: "nat list \<Rightarrow> item list \<Rightarrow> nat list" where
  "sub_shape s its = (case index_shape s its of Inl _ \<Rightarrow> s | Inr t \<Rightarrow> t)"

fun select :: "nd \<Rightarrow> item list \<Rightarrow> nd" where
  "select a [] = a"
| "select a (NewAxis # its) = Arr (shape (select a its)) [select a its]"
| "select (Arr s xs) (Ix i # its) =
     select (xs ! (case int_index (length xs) i of Inl _ \<Rightarrow> 0 | Inr j \<Rightarrow> j)) its"
| "select (Arr s xs) (Slice a b c # its) =
     Arr (sub_shape s its) (map (\<lambda>x. select x its) (py_slice xs a b c))"
| "select a (it # its) = a"


text \<open>
  Advanced indexing (some item is an index array). A boolean array must have the shape of
  the axes it stands for and counts as the arrays of the positions of its true entries;
  an integer beside an index array counts as an array of dimension 0. The index arrays are
  broadcast against each other to one shape; every entry must lie in range on its axis.
  In the result the axes of the broadcast shape take the place of the index arrays when
  these stand side by side in the index, and come first when a slice, an ellipsis or
  \<open>newaxis\<close> stands between two of them; the axes of the slices and of \<open>newaxis\<close> keep
  their order.
\<close>

fun is_advanced :: "item \<Rightarrow> bool" where
  "is_advanced (Ix i) = True"
| "is_advanced (IntArr p d) = True"
| "is_advanced (BoolArr p d) = True"
| "is_advanced it = False"

definition side_by_side :: "item list \<Rightarrow> bool" where
  "side_by_side its =
     (\<not> list_ex is_advanced
          (dropWhile is_advanced (dropWhile (\<lambda>it. \<not> is_advanced it) its)))"

fun bool_shapes_ok :: "nat list \<Rightarrow> item list \<Rightarrow> bool" where
  "bool_shapes_ok s [] = True"
| "bool_shapes_ok s (BoolArr p d # its) =
     (take (length p) s = p \<and> bool_shapes_ok (drop (length p) s) its)"
| "bool_shapes_ok s (NewAxis # its) = bool_shapes_ok s its"
| "bool_shapes_ok s (Ellipsis # its) = bool_shapes_ok s its"
| "bool_shapes_ok s (it # its) = bool_shapes_ok (drop 1 s) its"

fun zero_step :: "item \<Rightarrow> bool" where
  "zero_step (Slice a b c) = (c = Some 0)"
| "zero_step it = False"

definition true_positions :: "bool list \<Rightarrow> nat list" where
  "true_positions bs = map fst (filter snd (zip [0..<length bs] bs))"

text \<open>Row-major order: the position of a multi-index in a shape, and back.\<close>

fun ravel :: "nat list \<Rightarrow> nat list \<Rightarrow> nat" where
  "ravel (n # s) (i # r) = i * prod_list s + ravel s r"
| "ravel s r = 0"

fun unravel :: "nat list \<Rightarrow> nat \<Rightarrow> nat list" where
  "unravel [] k = []"
| "unravel (n # s) k = (k div prod_list s) # unravel s (k mod prod_list s)"

text \<open>numpy's broadcasting of two shapes, aligned at their last axes.\<close>

fun broadcast_rev :: "nat list \<Rightarrow> nat list \<Rightarrow> nat list option" where
  "broadcast_rev [] q = Some q"
| "broadcast_rev p [] = Some p"
| "broadcast_rev (m # p) (n # q) =
     (if m = n \<or> n = 1 then map_option ((#) m) (broadcast_rev p q)
      else if m = 1 then map_option ((#) n) (broadcast_rev p q)
      else None)"


definition broadcast2 :: "nat list \<Rightarrow> nat list \<Rightarrow> nat list option" where
  "broadcast2 p q = map_option rev (broadcast_rev (rev p) (rev q))"

fun broadcast_all :: "nat list list \<Rightarrow> nat list option" where
  "broadcast_all [] = Some []"
| "broadcast_all (p # ps) = (case broadcast_all ps of None \<Rightarrow> None | Some q \<Rightarrow> broadcast2 p q)"

text \<open>The position, in an index array of shape \<open>p\<close>, that the broadcast multi-index \<open>b\<close> reads.\<close>

definition broadcast_pos :: "nat list \<Rightarrow> nat list \<Rightarrow> nat" where
  "broadcast_pos p b =
     ravel p (map2 (\<lambda>n i. if n = 1 then 0 else i) p (drop (length b - length p) b))"

text \<open>
  What each item contributes: a slice the positions it keeps, \<open>newaxis\<close> an axis of length
  1, an advanced item its shape and, for every axis it stands for, the positions it reads
  there.
\<close>

datatype part = PSlice "nat list" | PNew | PAdv "nat list" "nat list list"

fun adv_shape :: "item \<Rightarrow> nat list" where
  "adv_shape (IntArr p d) = p"
| "adv_shape (BoolArr p d) = [length (true_positions d)]"
| "adv_shape it = []"

fun parts :: "nat list \<Rightarrow> item list \<Rightarrow> error + part list" where
  "parts s [] = Inr []"
| "parts s (NewAxis # its) = ebind (parts s its) (\<lambda>ps. Inr (PNew # ps))"
| "parts s (BoolArr p d # its) =
     ebind (parts (drop (length p) s) its) (\<lambda>ps.
       Inr (PAdv [length (true_positions d)]
              (map (\<lambda>ax. map (\<lambda>k. unravel p k ! ax) (true_positions d)) [0..<length p]) # ps))"
| "parts (n # s) (Slice a b c # its) =
     ebind (parts s its) (\<lambda>ps. Inr (PSlice (slice_indices n a b c) # ps))"
| "parts (n # s) (Ix i # its) =
     ebind (int_index n i) (\<lambda>j. ebind (parts s its) (\<lambda>ps. Inr (PAdv [] [[j]] # ps)))"
| "parts (n # s) (IntArr p d # its) =
     ebind (esequence (map (int_index n) d)) (\<lambda>js.
     ebind (parts s its) (\<lambda>ps. Inr (PAdv p [js] # ps)))"
| "parts s (it # its) = Inl IndexError"

fun part_dims :: "part \<Rightarrow> nat list" where
  "part_dims (PSlice js) = [length js]"
| "part_dims PNew = [1]"
| "part_dims (PAdv p cols) = []"

fun is_adv_part :: "part \<Rightarrow> bool" where
  "is_adv_part (PAdv p cols) = True"
| "is_adv_part q = False"

text \<open>
  The multi-index read in the source for the broadcast multi-index \<open>b\<close> and the
  multi-index \<open>r\<close> over the axes of the slices and of \<open>newaxis\<close>.
\<close>

fun source_index :: "part list \<Rightarrow> nat list \<Rightarrow> nat list \<Rightarrow> nat list" where
  "source_index [] b r = []"
| "source_index (PAdv p cols # ps) b r = map (\<lambda>col. col ! broadcast_pos p b) cols @ source_index ps b r"
| "source_index (PSlice js # ps) b (i # r) = (js ! i) # source_index ps b r"
| "source_index (PNew # ps) b (i # r) = source_index ps b r"
| "source_index (q # ps) b [] = []"

fun entry_at :: "nd \<Rightarrow> nat list \<Rightarrow> nd" where
  "entry_at a [] = a"
| "entry_at (Arr s xs) (i # r) = entry_at (xs ! i) r"
| "entry_at (Scalar x) (i # r) = Scalar x"

fun nd_tabulate :: "nat list \<Rightarrow> nat list \<Rightarrow> (nat list \<Rightarrow> nd) \<Rightarrow> nd" where
  "nd_tabulate [] leaf f = f []"
| "nd_tabulate (n # s) leaf f = Arr (s @ leaf) (map (\<lambda>i. nd_tabulate s leaf (\<lambda>r. f (i # r))) [0..<n])"

text \<open>
  The axes of the result that come before the broadcast shape, and the result itself: at
  every multi-index of the result shape the entry (or, when axes are left over, the
  sub-array) of the source at the multi-index the parts read there.
\<close>

definition adv_pre :: "bool \<Rightarrow> part list \<Rightarrow> nat list" where
  "adv_pre sb ps =
     (if sb then concat (map part_dims (takeWhile (\<lambda>q. \<not> is_adv_part q) ps)) else [])"

definition gather :: "nd \<Rightarrow> bool \<Rightarrow> nat list \<Rightarrow> part list \<Rightarrow> nat \<Rightarrow> nd" where
  "gather a sb B ps u =
     (let pre = adv_pre sb ps;
          post = drop (length pre) (concat (map part_dims ps));
          leaf = drop u (shape a)
      in nd_tabulate (pre @ B @ post) leaf (\<lambda>r.
           entry_at a (source_index ps (take (length B) (drop (length pre) r))
                         (take (length pre) r @ drop (length pre + length B) r))))"

definition advanced :: "nd \<Rightarrow> item list \<Rightarrow> item list \<Rightarrow> error + nd" where
  "advanced a its e =
     (if \<not> bool_shapes_ok (shape a) e then Inl IndexError
      else if list_ex zero_step e then Inl ValueError_slice_step
      else case broadcast_all (map adv_shape (filter is_advanced e)) of
             None \<Rightarrow> Inl IndexError
           | Some B \<Rightarrow>
               ebind (parts (shape a) e) (\<lambda>ps. Inr (gather a (side_by_side its) B ps (used e))))"

definition np_getitem :: "nd \<Rightarrow> item list \<Rightarrow> error + nd" where
  "np_getitem a its =
     ebind (np_prepare (ndim a) its) (\<lambda>e.
       if list_ex is_array its then advanced a its e
       else ebind (index_shape (shape a) e) (\<lambda>_. Inr (select a e)))"



subsection \<open>The result container\<close>

record IvimFit =
  model :: IvimModel
  model_params :: nd

definition IvimFit_getitem :: "IvimFit \<Rightarrow> index \<Rightarrow> error + IvimFit" where
  "IvimFit_getitem self idx =
     (let N = ndim (model_params self);
          continue = (\<lambda>its.
            ebind (np_getitem (model_params self)
                     (its @ replicate (N - length its) full_slice))
              (\<lambda>p. Inr \<lparr>model = model self, model_params = p\<rparr>))
      in case idx of
           Single it \<Rightarrow> continue [it]
         | Tuple its \<Rightarrow>
             if length its \<ge> ndim (model_params self) then Inl IndexError else continue its)"

text \<open>The accessors: \<^verbatim>\<open>self.model_params[..., k]\<close>.\<close>

definition IvimFit_S0_predicted :: "IvimFit \<Rightarrow> error + nd" where
  "IvimFit_S0_predicted self = np_getitem (model_params self) [Ellipsis, Ix 0]"




definition IvimFit_shape :: "IvimFit \<Rightarrow> nat list" where
  "IvimFit_shape self = butlast (shape (model_params self))"

subsection \<open>Collaborators\<close>

text \<open>
  numpy's \<open>polyfit\<close>, scipy's \<open>leastsq\<close> and \<open>least_squares\<close> and dipy's
  \<open>gradient_table\<close> are called by ivim.py and defined elsewhere. They are parameters of
  the model, together with the module constant \<open>SCIPY_LESS_0_17\<close>. A solver receives the
  residual function, the starting point, the bounds where it supports them, and the
  tolerances; it returns the solution (\<open>res.x\<close>, \<open>res[0]\<close>) or raises. \<open>gradient_table\<close>
  receives the rows of \<open>bvecs\<close> (the source passes their transpose).
\<close>

record solver_args =
  arg_gtol :: real
  arg_xtol :: real
  arg_ftol :: real
  arg_epsfcn :: "real option"
  arg_maxfev :: real

type_synonym residual = "real list \<Rightarrow> error + real list"

record collaborators =
  SCIPY_LESS_0_17 :: bool
  leastsq :: "residual \<Rightarrow> real list \<Rightarrow> solver_args \<Rightarrow> error + real list"
  least_squares :: "residual \<Rightarrow> real list \<Rightarrow> bounds option \<Rightarrow> solver_args \<Rightarrow> error + real list"
  polyfit :: "real list \<Rightarrow> real list \<Rightarrow> nat \<Rightarrow> error + real list"
  gradient_table :: "real list \<Rightarrow> (real \<times> real \<times> real) list \<Rightarrow> error + GradientTable"

subsection \<open>More numpy and dictionary operations\<close>

text \<open>
  \<open>np.log\<close> of a value that is not positive is \<open>-inf\<close> or \<open>nan\<close>, with a warning and no
  exception; the real-number model stops there with \<open>NotFinite\<close>.
\<close>

definition np_log :: "real list \<Rightarrow> error + real list" where
  "np_log a = (if \<forall>x \<in> set a. 0 < x then Inr (map ln a) else Inl NotFinite)"

text \<open>Indexing with a boolean array keeps the entries marked true; the lengths must agree.\<close>

definition np_bool_index :: "'a list \<Rightarrow> bool list \<Rightarrow> error + 'a list" where
  "np_bool_index a keep =
     (if length keep = length a then Inr (map fst (filter snd (zip a keep))) else Inl IndexError)"

definition dict_get :: "(string \<rightharpoonup> real) \<Rightarrow> string \<Rightarrow> error + real" where
  "dict_get d k = (case d k of None \<Rightarrow> Inl (KeyError k) | Some v \<Rightarrow> Inr v)"

text \<open>
  \<^verbatim>\<open>np.array([S0, f, D_star, D])\<close>, where \<open>D_star\<close> is the solver's solution array: an
  array of length one counts as its element; any other length raises.
\<close>

definition np_array4 :: "real \<Rightarrow> real \<Rightarrow> real list \<Rightarrow> real \<Rightarrow> error + real list" where
  "np_array4 S0 f D_star D = (case D_star of [d] \<Rightarrow> Inr [S0, f, d, D] | _ \<Rightarrow> Inl ValueError_sequence)"

text \<open>
  \<^verbatim>\<open>np.where(x0 > lo, x0, lo)\<close> and \<^verbatim>\<open>np.where(x0 < hi, x0, hi)\<close>, one element at a
  time. Choosing an infinite bound leaves the reals.
\<close>

definition where_gt :: "real \<Rightarrow> ext \<Rightarrow> error + real" where
  "where_gt x lo =
     (case lo of MInf \<Rightarrow> Inr x | Fin l \<Rightarrow> Inr (if x > l then x else l) | PInf \<Rightarrow> Inl NotFinite)"

definition where_lt :: "real \<Rightarrow> ext \<Rightarrow> error + real" where
  "where_lt x hi =
     (case hi of PInf \<Rightarrow> Inr x | Fin h \<Rightarrow> Inr (if x < h then x else h) | MInf \<Rightarrow> Inl NotFinite)"

definition np_where2 :: "(real \<Rightarrow> ext \<Rightarrow> error + real) \<Rightarrow> real list \<Rightarrow> ext list \<Rightarrow> error + real list" where
  "np_where2 f x b =
     (if length x = length b then esequence (map2 f x b)
      else if length x = 1 then esequence (map (f (hd x)) b)
      else if length b = 1 then esequence (map (\<lambda>v. f v (hd b)) x)
      else Inl ValueError_broadcast)"

subsection \<open>The staged initializer and the fit\<close>

definition IvimModel_estimate_S0_prime_D ::
  "collaborators \<Rightarrow> IvimModel \<Rightarrow> real list \<Rightarrow> error + real \<times> real" where
  "IvimModel_estimate_S0_prime_D env self data =
     (let keep = map (\<lambda>b. b \<ge> split_b self) (bvals (gtab self)) in
      ebind (np_bool_index (bvals (gtab self)) keep) (\<lambda>bvals_ge_split.
      ebind (np_bool_index (bvecs (gtab self)) keep) (\<lambda>bvecs_ge_split.
      ebind (gradient_table env bvals_ge_split bvecs_ge_split) (\<lambda>gtab_ge_split.
      ebind (np_bool_index data keep) (\<lambda>d.
      ebind (np_log d) (\<lambda>lg.
      ebind (polyfit env (bvals gtab_ge_split) (np_neg lg) 1) (\<lambda>c.
        case c of
          [D, neg_log_S0] \<Rightarrow> Inr (exp (- neg_log_S0), D)
        | _ \<Rightarrow> Inl ValueError_unpack)))))))"

definition IvimModel_estimate_S0_D_star_prime ::
  "collaborators \<Rightarrow> IvimModel \<Rightarrow> real list \<Rightarrow> error + real \<times> real" where
  "IvimModel_estimate_S0_D_star_prime env self data =
     (let keep = map (\<lambda>b. b < split_b self) (bvals (gtab self)) in
      ebind (np_bool_index (bvals (gtab self)) keep) (\<lambda>bvals_le_split.
      ebind (np_bool_index (bvecs (gtab self)) keep) (\<lambda>bvecs_le_split.
      ebind (gradient_table env bvals_le_split bvecs_le_split) (\<lambda>gtab_le_split.
      ebind (np_bool_index data keep) (\<lambda>d.
      ebind (np_log d) (\<lambda>lg.
      ebind (polyfit env (bvals gtab_le_split) (np_neg lg) 1) (\<lambda>c.
        case c of
          [D_star_prime, neg_log_S0] \<Rightarrow> Inr (exp (- neg_log_S0), D_star_prime)
        | _ \<Rightarrow> Inl ValueError_unpack)))))))"

text \<open>
  The statements after the two \<open>return\<close>s of \<open>estimate_D_star\<close> are never reached and
  are left out.
\<close>

definition IvimModel_estimate_D_star ::
  "collaborators \<Rightarrow> IvimModel \<Rightarrow> real list \<Rightarrow> real list \<Rightarrow> error + real list" where
  "IvimModel_estimate_D_star env self data other_params =
     ebind (dict_get (options self) ''gtol'') (\<lambda>gtol.
     ebind (dict_get (options self) ''ftol'') (\<lambda>ftol.
     (let xtol = tol self in
     ebind (dict_get (options self) ''eps'') (\<lambda>epsfcn.
     ebind (dict_get (options self) ''maxiter'') (\<lambda>maxfev.
       if SCIPY_LESS_0_17 env then
         leastsq env (\<lambda>D_star. D_star_error D_star (gtab self) data other_params) [5/10000]
           \<lparr>arg_gtol = gtol, arg_xtol = xtol, arg_ftol = ftol, arg_epsfcn = Some epsfcn,
            arg_maxfev = maxfev\<rparr>
       else
         least_squares env (\<lambda>D_star. D_star_error D_star (gtab self) data other_params) [5/10000]
           (Some ([Fin 0], [Fin (1/100)]))
           \<lparr>arg_gtol = gtol, arg_xtol = xtol, arg_ftol = ftol, arg_epsfcn = None,
            arg_maxfev = maxfev\<rparr>)))))"

definition IvimModel_leastsq ::
  "collaborators \<Rightarrow> IvimModel \<Rightarrow> real list \<Rightarrow> real list \<Rightarrow> error + real list" where
  "IvimModel_leastsq env self data x0 =
     ebind (dict_get (options self) ''gtol'') (\<lambda>gtol.
     ebind (dict_get (options self) ''ftol'') (\<lambda>ftol.
     (let xtol = tol self in
     ebind (dict_get (options self) ''eps'') (\<lambda>epsfcn.
     ebind (dict_get (options self) ''maxiter'') (\<lambda>maxfev.
       if SCIPY_LESS_0_17 env then
         leastsq env (\<lambda>params. ivim_error params (gtab self) data) x0
           \<lparr>arg_gtol = gtol, arg_xtol = xtol, arg_ftol = ftol, arg_epsfcn = Some epsfcn,
            arg_maxfev = maxfev\<rparr>
       else
         least_squares env (\<lambda>params. ivim_error params (gtab self) data) x0 (bounds self)
           \<lparr>arg_gtol = gtol, arg_xtol = xtol, arg_ftol = ftol, arg_epsfcn = None,
            arg_maxfev = maxfev\<rparr>)))))"

text \<open>
  \<open>IvimModel.fit\<close> for one voxel (the decorator \<open>multi_voxel_fit\<close> repeats it over a
  volume; the argument \<open>mask\<close> is not read by the body).
\<close>

definition IvimModel_fit :: "collaborators \<Rightarrow> IvimModel \<Rightarrow> real list \<Rightarrow> error + IvimFit" where
  "IvimModel_fit env self data =
     ebind (IvimModel_estimate_S0_prime_D env self data) (\<lambda>(S0_prime, D).
     ebind (IvimModel_estimate_S0_D_star_prime env self data) (\<lambda>(S0, D_star_prime).
     (let f = 1 - S0_prime / S0 in
     ebind (IvimModel_estimate_D_star env self data [S0, f, D]) (\<lambda>D_star.
     ebind (np_array4 S0 f D_star D) (\<lambda>x0.
       if method_name self = ''one_stage'' then
         Inr \<lparr>model = self, model_params = nd_of_list x0\<rparr>
       else
         (let bounds_check = (case bounds self of None \<Rightarrow> tight_bounds | Some b \<Rightarrow> b) in
          ebind (np_where2 where_gt x0 (fst bounds_check)) (\<lambda>x0.
          ebind (np_where2 where_lt x0 (snd bounds_check)) (\<lambda>x0.
          ebind (IvimModel_leastsq env self data x0) (\<lambda>params_in_mask.
            Inr \<lparr>model = self, model_params = nd_of_list params_in_mask\<rparr>)))))))))"

subsection \<open>Notions used to state the properties of the fit\<close>

text \<open>The value of \<open>x0\<close> after line 244 of the source, before the method is looked at.\<close>

definition staged_x0 :: "collaborators \<Rightarrow> IvimModel \<Rightarrow> real list \<Rightarrow> error + real list" where
  "staged_x0 env self data =
     ebind (IvimModel_estimate_S0_prime_D env self data) (\<lambda>(S0_prime, D).
     ebind (IvimModel_estimate_S0_D_star_prime env self data) (\<lambda>(S0, D_star_prime).
     ebind (IvimModel_estimate_D_star env self data [S0, 1 - S0_prime / S0, D]) (\<lambda>D_star.
       np_array4 S0 (1 - S0_prime / S0) D_star D)))"

text \<open>The interval of the clamp (lines 249 to 252) and the clamp itself (lines 254, 255).\<close>

definition bounds_check :: "IvimModel \<Rightarrow> bounds" where
  "bounds_check self = (case bounds self of None \<Rightarrow> tight_bounds | Some b \<Rightarrow> b)"

definition clamp :: "real list \<Rightarrow> bounds \<Rightarrow> error + real list" where
  "clamp x0 bc = ebind (np_where2 where_gt x0 (fst bc)) (\<lambda>x. np_where2 where_lt x (snd bc))"

text \<open>A value against a bound, and a parameter vector inside a pair of bounds, ends included.\<close>

fun ext_le_real :: "ext \<Rightarrow> real \<Rightarrow> bool" where
  "ext_le_real MInf x = True"
| "ext_le_real (Fin l) x = (l \<le> x)"
| "ext_le_real PInf x = False"

fun real_le_ext :: "real \<Rightarrow> ext \<Rightarrow> bool" where
  "real_le_ext x MInf = False"
| "real_le_ext x (Fin h) = (x \<le> h)"
| "real_le_ext x PInf = True"

text \<open>The order of two bounds: whether the lower one is at most the upper one.\<close>

fun ext_le :: "ext \<Rightarrow> ext \<Rightarrow> bool" where
  "ext_le MInf h = True"
| "ext_le (Fin l) h = real_le_ext l h"
| "ext_le PInf h = (h = PInf)"

definition in_bounds :: "real list \<Rightarrow> bounds \<Rightarrow> bool" where
  "in_bounds x b =
     (length (fst b) = length x \<and> length (snd b) = length x \<and>
      list_all2 ext_le_real (fst b) x \<and> list_all2 real_le_ext x (snd b))"

text \<open>
  The assumption on the bounded solver under which a property of the fit is stated: it
  returns a point inside the bounds it was given. The sources do not enforce it.
\<close>

definition honours_bounds ::
  "(residual \<Rightarrow> real list \<Rightarrow> bounds option \<Rightarrow> solver_args \<Rightarrow> error + real list) \<Rightarrow> bool" where
  "honours_bounds ls = (\<forall>r x0 b a x. ls r x0 (Some b) a = Inr x \<longrightarrow> in_bounds x b)"

subsection \<open>Stand-ins for the collaborators\<close>

text \<open>
  Modelled from the spec: the collaborators are not among the sources. These stand-ins
  follow the interfaces of the spec and serve to evaluate the fit at concrete inputs:
  ordinary least squares for a line through at least two points; a gradient table that
  bundles what it is given; solvers that stop at once and report their starting point,
  the bounded one refusing a starting point outside its bounds.
\<close>

definition polyfit_ols :: "real list \<Rightarrow> real list \<Rightarrow> nat \<Rightarrow> error + real list" where
  "polyfit_ols xs ys deg =
     (if deg \<noteq> 1 \<or> length xs \<noteq> length ys \<or> length xs < 2 then Inl (External ''polyfit'')
      else
        (let n = real (length xs); sx = sum_list xs; sy = sum_list ys;
             sxx = sum_list (map (\<lambda>x. x * x) xs); sxy = sum_list (map2 (*) xs ys);
             den = n * sxx - sx * sx
         in if den = 0 then Inl (External ''polyfit'')
            else Inr [(n * sxy - sx * sy) / den, (sy * sxx - sx * sxy) / den]))"

definition gradient_table_plain ::
  "real list \<Rightarrow> (real \<times> real \<times> real) list \<Rightarrow> error + GradientTable" where
  "gradient_table_plain bv bc =
     (if length bv = length bc
      then Inr \<lparr>bvals = bv, bvecs = bc, b0s_mask = map (\<lambda>b. b \<le> 0) bv\<rparr>
      else Inl (External ''gradient_table''))"

definition leastsq_start :: "residual \<Rightarrow> real list \<Rightarrow> solver_args \<Rightarrow> error + real list" where
  "leastsq_start r x0 a = Inr x0"

definition least_squares_start ::
  "residual \<Rightarrow> real list \<Rightarrow> bounds option \<Rightarrow> solver_args \<Rightarrow> error + real list" where
  "least_squares_start r x0 b a =
     (case b of
        None \<Rightarrow> Inr x0
      | Some bb \<Rightarrow> if in_bounds x0 bb then Inr x0 else Inl (External ''least_squares''))"

definition example_env :: collaborators where
  "example_env = \<lparr>SCIPY_LESS_0_17 = False, leastsq = leastsq_start,
     least_squares = least_squares_start, polyfit = polyfit_ols,
     gradient_table = gradient_table_plain\<rparr>"

subsection \<open>Example objects\<close>

text \<open>Concrete objects at which the theorems below are evaluated.\<close>

definition example_gtab :: GradientTable where
  "example_gtab = \<lparr>bvals = [0, 100, 200, 400],
     bvecs = [(0, 0, 0), (1, 0, 0), (0, 1, 0), (0, 0, 1)],
     b0s_mask = [True, False, False, False]\<rparr>"

definition example_options :: "string \<rightharpoonup> real" where
  "example_options = [''gtol'' \<mapsto> 1/10^10, ''ftol'' \<mapsto> 1/10^10, ''eps'' \<mapsto> 1/10^10,
     ''maxiter'' \<mapsto> 1000]"

definition example_model :: "string \<Rightarrow> IvimModel" where
  "example_model meth = \<lparr>gtab = example_gtab, split_b = 200, bounds = Some default_bounds,
     tol = 1/10^10, options = example_options, method_name = meth\<rparr>"


definition example_voxel :: nd where
  "example_voxel = nd_of_list [1, 1/10, 1/100, 1/1000]"


subsection \<open>Facts about the signal model\<close>

lemma map2_same:
  "map2 f (map g xs) (map h xs) = map (\<lambda>x. f (g x) (h x)) xs"
  by (induction xs) simp_all

lemma ivim_prediction_eq:
  "ivim_prediction [S0, f, D_star, D] g = Inr (map (ivim_formula S0 f D_star D) (bvals g))"
proof -
  let ?b = "bvals g"
  have fast: "np_scalar_mul f (np_exp (np_mul_scalar (np_neg ?b) D_star))
                = map (\<lambda>b. f * exp (- b * D_star)) ?b"
    by (simp add: np_scalar_mul_def np_exp_def np_mul_scalar_def np_neg_def)
  have slow: "np_scalar_mul (1 - f) (np_exp (np_mul_scalar (np_neg ?b) D))
                = map (\<lambda>b. (1 - f) * exp (- b * D)) ?b"
    by (simp add: np_scalar_mul_def np_exp_def np_mul_scalar_def np_neg_def)
  have sum: "np_add (map (\<lambda>b. f * exp (- b * D_star)) ?b) (map (\<lambda>b. (1 - f) * exp (- b * D)) ?b)
               = Inr (map (\<lambda>b. f * exp (- b * D_star) + (1 - f) * exp (- b * D)) ?b)"
    by (simp add: np_add_def np_binop_def map2_same)
  show ?thesis
    unfolding ivim_prediction_def Let_def list.case fast slow sum ebind_def sum.case
    by (simp add: np_scalar_mul_def ivim_formula_def)
qed

text \<open>
  Claim C8. For the parameters \<open>(S0, f, D_star, D)\<close> the prediction is defined, has one
  entry per b-value, and its entry at each b-value \<open>b\<close> is
  \<open>S0 * (f * exp (-b * D_star) + (1 - f) * exp (-b * D))\<close>; for a signal aligned with the
  b-values the residual is defined, is as long as the signal, and each of its entries is
  the observed value minus that prediction.
\<close>

theorem ivim_prediction_and_residual:
  "(\<exists>p. ivim_prediction [S0, f, D_star, D] g = Inr p \<and> length p = length (bvals g) \<and>
        (\<forall>i < length (bvals g).
           p ! i = S0 * (f * exp (- (bvals g ! i) * D_star) + (1 - f) * exp (- (bvals g ! i) * D)))) \<and>
   (length signal = length (bvals g) \<longrightarrow>
      (\<exists>r. ivim_error [S0, f, D_star, D] g signal = Inr r \<and> length r = length signal \<and>
        (\<forall>i < length signal.
           r ! i = signal ! i -
             S0 * (f * exp (- (bvals g ! i) * D_star) + (1 - f) * exp (- (bvals g ! i) * D)))))"
  by (simp add: ivim_prediction_eq ivim_error_def ebind_def np_sub_def np_binop_def ivim_formula_def)

theorem ivim_prediction_and_residual_witness:
  "ivim_error [2, 1/2, 0, 0] \<lparr>bvals = [0, 100], bvecs = [], b0s_mask = [True, False]\<rparr> [5, 3]
     = Inr [3, 1]"
proof -
  let ?g = "\<lparr>bvals = [0, 100], bvecs = [], b0s_mask = [True, False]\<rparr>"
  have len: "length [5, 3 :: real] = length (bvals ?g)" by simp
  from ivim_prediction_and_residual [of 2 "1/2" 0 0 ?g "[5, 3]"] len
  obtain r where r: "ivim_error [2, 1/2, 0, 0] ?g [5, 3] = Inr r" "length r = 2"
    and el: "\<forall>i < length [5, 3 :: real]. r ! i = [5, 3] ! i -
       2 * (1/2 * exp (- (bvals ?g ! i) * 0) + (1 - 1/2) * exp (- (bvals ?g ! i) * 0))"
    by auto
  from el have "r ! 0 = 3" "r ! 1 = 1" by (simp_all add: nth_Cons')
  with r(2) have "r = [3, 1]"
    by (cases r; cases "tl r") (auto simp: nth_Cons')
  with r(1) show ?thesis by simp
qed

text \<open>
  Claim C10. With perfusion fraction \<open>f = 0\<close> the prediction at each b-value \<open>b\<close> is
  \<open>S0 * exp (-b * D)\<close>, whatever \<open>D_star\<close> is.
\<close>

theorem ivim_prediction_f_zero:
  "ivim_prediction [S0, 0, D_star, D] g = Inr (map (\<lambda>b. S0 * exp (- b * D)) (bvals g))"
  by (simp add: ivim_prediction_eq ivim_formula_def)

subsection \<open>Facts about construction\<close>

text \<open>
  Claim C7. A gradient table whose b0 mask has no true entry makes the constructor raise
  the missing-b0 error, whatever the other arguments are, and no model object exists on
  which a fit could run; a table with a b0 entry never makes it raise that error.
\<close>

theorem init_requires_b0:
  "(\<not> (\<exists>x \<in> set (b0s_mask g). x) \<longrightarrow>
      IvimModel_init less17 g split meth bnds xtol opts = Inl ValueError_no_b0) \<and>
   ((\<exists>x \<in> set (b0s_mask g). x) \<longrightarrow>
      IvimModel_init less17 g split meth bnds xtol opts \<noteq> Inl ValueError_no_b0)"
  by (auto simp: IvimModel_init_def np_any_def list_ex_iff)

theorem init_requires_b0_witness:
  "IvimModel_init False \<lparr>bvals = [100, 200], bvecs = [], b0s_mask = [False, False]\<rparr>
       200 ''two_stage'' (None :: bounds option) (1/10) Map.empty = Inl ValueError_no_b0 \<and>
   IvimModel_init False \<lparr>bvals = [100, 0], bvecs = [], b0s_mask = [False, True]\<rparr>
       200 ''two_stage'' (None :: bounds option) (1/10) Map.empty \<noteq> Inl ValueError_no_b0"
  using init_requires_b0 [of "\<lparr>bvals = [100, 200], bvecs = [], b0s_mask = [False, False]\<rparr>"
      False 200 "''two_stage''" "None :: bounds option" "1/10" Map.empty]
    init_requires_b0 [of "\<lparr>bvals = [100, 0], bvecs = [], b0s_mask = [False, True]\<rparr>"
      False 200 "''two_stage''" "None :: bounds option" "1/10" Map.empty]
  by simp

text \<open>
  Claim C4. Where bounded least squares is available (\<open>SCIPY_LESS_0_17\<close> is false), a
  construction that succeeds stores the default pair of bounds, and the model built from
  any \<open>bounds\<close> argument is the model built from \<open>None\<close>: the argument has no effect on
  anything that reads the model afterwards.
\<close>

theorem init_ignores_bounds:
  "(IvimModel_init False g split meth bnds xtol opts = Inr m \<longrightarrow>
      bounds m = Some ([Fin 0, Fin 0, Fin 0, Fin 0], [PInf, Fin 1, Fin (5/100), Fin (5/1000)])) \<and>
   IvimModel_init False g split meth bnds xtol opts
     = IvimModel_init False g split meth (None :: bounds option) xtol opts"
  by (auto simp: IvimModel_init_def default_bounds_def)

theorem init_ignores_bounds_witness:
  "\<exists>m. IvimModel_init False \<lparr>bvals = [0, 300], bvecs = [], b0s_mask = [True, False]\<rparr>
          200 ''two_stage'' (Some ([Fin 0, Fin 0, Fin 0, Fin 0], [Fin 9, Fin 1, Fin 1, Fin 1]))
          (1/10) Map.empty = Inr m \<and>
       bounds m = Some ([Fin 0, Fin 0, Fin 0, Fin 0], [PInf, Fin 1, Fin (5/100), Fin (5/1000)])"
proof -
  let ?g = "\<lparr>bvals = [0, 300], bvecs = [], b0s_mask = [True, False]\<rparr>"
  let ?b = "Some ([Fin 0, Fin 0, Fin 0, Fin 0], [Fin 9, Fin 1, Fin 1, Fin 1])"
  obtain m where m: "IvimModel_init False ?g 200 ''two_stage'' ?b (1/10) Map.empty = Inr m"
    by (simp add: IvimModel_init_def np_any_def)
  with init_ignores_bounds [of ?g 200 "''two_stage''" ?b "1/10" Map.empty m]
  show ?thesis by blast
qed

subsection \<open>Facts about indexing\<close>


lemma esequence_Inr:
  "esequence xs = Inr ys \<Longrightarrow> length ys = length xs \<and> (\<forall>i < length xs. xs ! i = Inr (ys ! i))"
proof (induction xs arbitrary: ys)
  case Nil
  then show ?case by simp
next
  case (Cons x xs)
  from Cons.prems obtain v vs where x: "x = Inr v" and vs: "esequence xs = Inr vs" and ys: "ys = v # vs"
    by (auto simp: ebind_def split: sum.splits)
  from Cons.IH [OF vs] x ys show ?case by (auto simp: nth_Cons')
qed

lemma slice_indices_full [simp]: "slice_indices n None None None = [0..<n]"
proof -
  have "slice_len 0 (int n) 1 = n" by (simp add: slice_len_def)
  moreover have "map (\<lambda>k. nat (int k)) [0..<n] = [0..<n]" by (simp add: map_idI)
  ultimately show ?thesis
    by (simp add: slice_indices_def slice_step_def slice_start_def slice_stop_def)
qed

lemma py_slice_full [simp]: "py_slice xs None None None = xs"
  by (simp add: py_slice_def map_nth)









lemma used_Nil [simp]: "used [] = 0"
  by (simp add: used_def)

lemma used_Cons [simp]: "used (it # its) = consumes it + used its"
  by (simp add: used_def)

lemma used_append [simp]: "used (xs @ ys) = used xs + used ys"
  by (simp add: used_def)

lemma used_full [simp]: "used (replicate m full_slice) = m"
  by (induction m) simp_all

lemma index_shape_used: "index_shape s its = Inr t \<Longrightarrow> used its \<le> length s"
  by (induction s its arbitrary: t rule: index_shape.induct)
    (auto simp: ebind_def split: sum.splits if_splits)




















lemma used_le_length: "\<not> list_ex is_array its \<Longrightarrow> used its \<le> length its"
proof (induction its)
  case Nil
  then show ?case by simp
next
  case (Cons it its)
  then show ?case by (cases it) simp_all
qed






lemma getitem_long_tuple:
  "ndim (model_params self) \<le> length its \<Longrightarrow> IvimFit_getitem self (Tuple its) = Inl IndexError"
  by (simp add: IvimFit_getitem_def Let_def)










lemma unravel_length: "length (unravel p k) = length p"
  by (induction p arbitrary: k) simp_all
















lemma parts_flags: "parts s e = Inr ps \<Longrightarrow> map is_adv_part ps = map is_advanced e"
  by (induction s e arbitrary: ps rule: parts.induct)
    (auto simp: ebind_def split: sum.splits)






















lemma advanced_full: "\<not> list_ex is_advanced (replicate m full_slice)"
  by (induction m) simp_all

















text \<open>
  Claim C5. On the parameter array of a single voxel (dimension 1) the index \<open>0\<close>, whose
  dimensionality equals that of the array, is accepted when it is written as a plain
  integer: the result wraps the scalar \<open>S0\<close>, on which the accessors raise. The same
  index written as the tuple \<open>(0,)\<close> raises the indexing error.
\<close>

theorem getitem_single_index_not_rejected:
  "IvimFit_getitem \<lparr>model = example_model ''two_stage'', model_params = example_voxel\<rparr> (Single (Ix 0))
     = Inr \<lparr>model = example_model ''two_stage'', model_params = Scalar 1\<rparr> \<and>
   IvimFit_getitem \<lparr>model = example_model ''two_stage'', model_params = example_voxel\<rparr> (Tuple [Ix 0])
     = Inl IndexError \<and>
   IvimFit_S0_predicted \<lparr>model = example_model ''two_stage'', model_params = Scalar 1\<rparr>
     = Inl IndexError"
  by (simp add: IvimFit_getitem_def Let_def example_voxel_def nd_of_list_def ndim_def
      np_getitem_def np_prepare_def int_index_def ebind_def IvimFit_S0_predicted_def)

subsection \<open>Facts about the fit\<close>

lemma fit_eq:
  "IvimModel_fit env self data =
     ebind (staged_x0 env self data) (\<lambda>x0.
       if method_name self = ''one_stage'' then Inr \<lparr>model = self, model_params = nd_of_list x0\<rparr>
       else ebind (clamp x0 (bounds_check self)) (\<lambda>xc.
            ebind (IvimModel_leastsq env self data xc) (\<lambda>p.
              Inr \<lparr>model = self, model_params = nd_of_list p\<rparr>)))"
  by (simp add: IvimModel_fit_def staged_x0_def clamp_def bounds_check_def ebind_def Let_def
      split: sum.splits prod.splits)

lemma hi_side:
  "IvimModel_estimate_S0_prime_D example_env (example_model meth) [1, 1, 2, 2] = Inr (2, 0)"
  by (simp add: IvimModel_estimate_S0_prime_D_def example_env_def example_model_def
      example_gtab_def np_bool_index_def gradient_table_plain_def np_log_def np_neg_def
      polyfit_ols_def ebind_def Let_def)

lemma lo_side:
  "IvimModel_estimate_S0_D_star_prime example_env (example_model meth) [1, 1, 2, 2] = Inr (1, 0)"
  by (simp add: IvimModel_estimate_S0_D_star_prime_def example_env_def example_model_def
      example_gtab_def np_bool_index_def gradient_table_plain_def np_log_def np_neg_def
      polyfit_ols_def ebind_def Let_def)

lemma d_star:
  "IvimModel_estimate_D_star example_env (example_model meth) data other = Inr [5/10000]"
  by (simp add: IvimModel_estimate_D_star_def example_env_def example_model_def
      example_options_def dict_get_def least_squares_start_def in_bounds_def ebind_def Let_def)

lemma x0_ex: "staged_x0 example_env (example_model meth) [1, 1, 2, 2] = Inr [1, -1, 5/10000, 0]"
  by (simp add: staged_x0_def hi_side lo_side d_star ebind_def np_array4_def)

lemma np_where2_Inr:
  assumes "np_where2 f x b = Inr y" and "length b = length x"
  shows "length y = length x \<and> (\<forall>i < length x. f (x ! i) (b ! i) = Inr (y ! i))"
proof -
  from assms have "esequence (map2 f x b) = Inr y" by (simp add: np_where2_def)
  from esequence_Inr [OF this] assms(2) show ?thesis by simp
qed

lemma clamp_Inr:
  assumes "clamp x0 (lo, hi) = Inr xc" and "length lo = length x0" and "length hi = length x0"
  shows "length xc = length x0 \<and>
         (\<forall>i < length x0. \<exists>v. where_gt (x0 ! i) (lo ! i) = Inr v \<and> where_lt v (hi ! i) = Inr (xc ! i))"
proof -
  from assms(1) obtain x1 where x1: "np_where2 where_gt x0 lo = Inr x1"
    and xc: "np_where2 where_lt x1 hi = Inr xc"
    by (auto simp: clamp_def ebind_def split: sum.splits)
  from np_where2_Inr [OF x1 assms(2)]
  have l1: "length x1 = length x0" and e1: "\<forall>i < length x0. where_gt (x0 ! i) (lo ! i) = Inr (x1 ! i)"
    by simp_all
  from np_where2_Inr [OF xc] assms(3) l1
  have "length xc = length x0" and "\<forall>i < length x0. where_lt (x1 ! i) (hi ! i) = Inr (xc ! i)"
    by simp_all
  with e1 show ?thesis by blast
qed

lemma where_steps:
  assumes "where_gt x lo = Inr v" and "where_lt v hi = Inr c"
  shows "real_le_ext c hi"
    and "ext_le_real lo x \<Longrightarrow> real_le_ext x hi \<Longrightarrow> c = x"
    and "\<not> real_le_ext x hi \<Longrightarrow> Fin c = hi"
    and "\<not> ext_le_real lo x \<Longrightarrow> Fin c = lo \<or> Fin c = hi"
  using assms by (cases lo; cases hi; auto simp: where_gt_def where_lt_def split: if_splits)+

lemma where_ordered:
  assumes "where_gt x lo = Inr v" and "where_lt v hi = Inr c"
  shows "ext_le lo hi \<Longrightarrow> ext_le_real lo c"
    and "ext_le lo hi \<Longrightarrow> \<not> ext_le_real lo x \<Longrightarrow> Fin c = lo"
    and "\<not> ext_le lo hi \<Longrightarrow> Fin c = hi"
  using assms by (cases lo; cases hi; auto simp: where_gt_def where_lt_def split: if_splits)+

lemma honours_bounds_start: "honours_bounds least_squares_start"
  by (auto simp: honours_bounds_def least_squares_start_def split: if_splits)

lemma clamp_default:
  "clamp [a, b, c, d] default_bounds
     = Inr [max a 0, min (max b 0) 1, min (max c 0) (5/100), min (max d 0) (5/1000)]"
  by (auto simp: clamp_def default_bounds_def np_where2_def where_gt_def where_lt_def ebind_def
      max_def min_def)

lemma x0_ex3: "staged_x0 example_env (example_model meth) [1, 1, 3, 3] = Inr [1, -2, 5/10000, 0]"
proof -
  have hi: "IvimModel_estimate_S0_prime_D example_env (example_model meth) [1, 1, 3, 3] = Inr (3, 0)"
    by (simp add: IvimModel_estimate_S0_prime_D_def example_env_def example_model_def
        example_gtab_def np_bool_index_def gradient_table_plain_def np_log_def np_neg_def
        polyfit_ols_def ebind_def Let_def)
  have lo: "IvimModel_estimate_S0_D_star_prime example_env (example_model meth) [1, 1, 3, 3] = Inr (1, 0)"
    by (simp add: IvimModel_estimate_S0_D_star_prime_def example_env_def example_model_def
        example_gtab_def np_bool_index_def gradient_table_plain_def np_log_def np_neg_def
        polyfit_ols_def ebind_def Let_def)
  show ?thesis by (simp add: staged_x0_def hi lo d_star ebind_def np_array4_def)
qed

lemma x0_exD:
  "staged_x0 example_env (example_model meth) [1, 1, 1, exp (- (3/5))]
     = Inr [1, 1 - exp (3/5), 5/10000, 3/1000]"
proof -
  have hi: "IvimModel_estimate_S0_prime_D example_env (example_model meth) [1, 1, 1, exp (- (3/5))]
              = Inr (exp (3/5), 3/1000)"
    by (simp add: IvimModel_estimate_S0_prime_D_def example_env_def example_model_def
        example_gtab_def np_bool_index_def gradient_table_plain_def np_log_def np_neg_def
        polyfit_ols_def ebind_def Let_def)
  have lo: "IvimModel_estimate_S0_D_star_prime example_env (example_model meth) [1, 1, 1, exp (- (3/5))]
              = Inr (1, 0)"
    by (simp add: IvimModel_estimate_S0_D_star_prime_def example_env_def example_model_def
        example_gtab_def np_bool_index_def gradient_table_plain_def np_log_def np_neg_def
        polyfit_ols_def ebind_def Let_def)
  show ?thesis by (simp add: staged_x0_def hi lo d_star ebind_def np_array4_def)
qed

lemma leastsq_ex:
  "in_bounds x default_bounds \<Longrightarrow>
   IvimModel_leastsq example_env (example_model meth) data x = Inr x"
  by (simp add: IvimModel_leastsq_def example_env_def example_model_def example_options_def
      dict_get_def least_squares_start_def ebind_def Let_def)

lemma fit_exD:
  "IvimModel_fit example_env (example_model ''two_stage'') [1, 1, 1, exp (- (3/5))]
     = Inr \<lparr>model = example_model ''two_stage'', model_params = nd_of_list [1, 0, 5/10000, 3/1000]\<rparr>"
proof -
  have c: "clamp [1, 1 - exp (3/5), 5/10000, 3/1000] default_bounds = Inr [1, 0, 5/10000, 3/1000]"
    by (simp add: clamp_default)
  have b: "in_bounds [1, 0, 5/10000, 3/1000] default_bounds"
    by (simp add: in_bounds_def default_bounds_def)
  have bc: "bounds_check (example_model ''two_stage'') = default_bounds"
    by (simp add: bounds_check_def example_model_def)
  have m: "method_name (example_model ''two_stage'') \<noteq> ''one_stage''"
    by (simp add: example_model_def)
  show ?thesis
    unfolding fit_eq x0_exD using m c leastsq_ex [OF b, of "''two_stage''" "[1, 1, 1, exp (- (3/5))]"]
    by (simp add: ebind_def bc)
qed

lemma leastsq_bounded:
  assumes "\<not> SCIPY_LESS_0_17 env" and "IvimModel_leastsq env self data x = Inr p"
  shows "\<exists>a. least_squares env (\<lambda>params. ivim_error params (gtab self) data) x (bounds self) a = Inr p"
  using assms
  by (auto simp: IvimModel_leastsq_def ebind_def Let_def split: sum.splits)

text \<open>
  Against claim C1 as stated: with method \<open>one_stage\<close> the fit returns the initial guess
  with its perfusion fraction \<open>-2\<close>, below the lower bound \<open>0\<close>; the clamp would have
  replaced it by \<open>0\<close>.
\<close>

theorem fit_one_stage_unclamped_counterexample:
  "IvimModel_fit example_env (example_model ''one_stage'') [1, 1, 3, 3]
     = Inr \<lparr>model = example_model ''one_stage'', model_params = nd_of_list [1, -2, 5/10000, 0]\<rparr> \<and>
   clamp [1, -2, 5/10000, 0] (bounds_check (example_model ''one_stage'')) = Inr [1, 0, 5/10000, 0]"
proof -
  have bc: "bounds_check (example_model ''one_stage'') = default_bounds"
    by (simp add: bounds_check_def example_model_def)
  have m: "method_name (example_model ''one_stage'') = ''one_stage''"
    by (simp add: example_model_def)
  show ?thesis
    unfolding fit_eq x0_ex3 bc using m by (simp add: ebind_def clamp_default)
qed

text \<open>
  Claim C1, amended. With method \<open>one_stage\<close> the fit returns the initial guess of the
  staged initializer as it is, neither clamped nor refined. With any other method the
  initial guess is clamped into the bounds-check interval and the clamped vector is what
  the final solver starts from. The clamp works elementwise: no component of its result
  exceeds the upper bound, a component inside the interval is kept, and a component above
  the upper bound is replaced by the upper bound. Where the lower bound is at most the
  upper bound, as in every interval the code sets, the result lies inside the interval and
  a component below the lower bound is replaced by the lower bound; where the lower bound
  exceeds the upper bound, the component becomes the upper bound.
\<close>

theorem fit_clamps_in_two_stage_only:
  "(method_name self = ''one_stage'' \<longrightarrow>
      IvimModel_fit env self data =
        ebind (staged_x0 env self data) (\<lambda>x0. Inr \<lparr>model = self, model_params = nd_of_list x0\<rparr>)) \<and>
   (method_name self \<noteq> ''one_stage'' \<longrightarrow>
      IvimModel_fit env self data =
        ebind (staged_x0 env self data) (\<lambda>x0.
        ebind (clamp x0 (bounds_check self)) (\<lambda>xc.
        ebind (IvimModel_leastsq env self data xc) (\<lambda>p.
          Inr \<lparr>model = self, model_params = nd_of_list p\<rparr>)))) \<and>
   (clamp x0 (lo, hi) = Inr xc \<and> length lo = length x0 \<and> length hi = length x0 \<longrightarrow>
      length xc = length x0 \<and>
      (\<forall>i < length x0.
         real_le_ext (xc ! i) (hi ! i) \<and>
         (ext_le_real (lo ! i) (x0 ! i) \<and> real_le_ext (x0 ! i) (hi ! i) \<longrightarrow> xc ! i = x0 ! i) \<and>
         (\<not> real_le_ext (x0 ! i) (hi ! i) \<longrightarrow> Fin (xc ! i) = hi ! i) \<and>
         (ext_le (lo ! i) (hi ! i) \<longrightarrow>
            ext_le_real (lo ! i) (xc ! i) \<and>
            (\<not> ext_le_real (lo ! i) (x0 ! i) \<longrightarrow> Fin (xc ! i) = lo ! i)) \<and>
         (\<not> ext_le (lo ! i) (hi ! i) \<longrightarrow> Fin (xc ! i) = hi ! i)))"
proof (intro conjI impI)
  assume "method_name self = ''one_stage''"
  then show "IvimModel_fit env self data =
      ebind (staged_x0 env self data) (\<lambda>x0. Inr \<lparr>model = self, model_params = nd_of_list x0\<rparr>)"
    by (simp add: fit_eq)
next
  assume "method_name self \<noteq> ''one_stage''"
  then show "IvimModel_fit env self data =
      ebind (staged_x0 env self data) (\<lambda>x0.
      ebind (clamp x0 (bounds_check self)) (\<lambda>xc.
      ebind (IvimModel_leastsq env self data xc) (\<lambda>p.
        Inr \<lparr>model = self, model_params = nd_of_list p\<rparr>)))"
    by (simp add: fit_eq)
next
  assume a: "clamp x0 (lo, hi) = Inr xc \<and> length lo = length x0 \<and> length hi = length x0"
  with clamp_Inr [of x0 lo hi xc] show "length xc = length x0" by simp
next
  assume a: "clamp x0 (lo, hi) = Inr xc \<and> length lo = length x0 \<and> length hi = length x0"
  show "\<forall>i < length x0.
         real_le_ext (xc ! i) (hi ! i) \<and>
         (ext_le_real (lo ! i) (x0 ! i) \<and> real_le_ext (x0 ! i) (hi ! i) \<longrightarrow> xc ! i = x0 ! i) \<and>
         (\<not> real_le_ext (x0 ! i) (hi ! i) \<longrightarrow> Fin (xc ! i) = hi ! i) \<and>
         (ext_le (lo ! i) (hi ! i) \<longrightarrow>
            ext_le_real (lo ! i) (xc ! i) \<and>
            (\<not> ext_le_real (lo ! i) (x0 ! i) \<longrightarrow> Fin (xc ! i) = lo ! i)) \<and>
         (\<not> ext_le (lo ! i) (hi ! i) \<longrightarrow> Fin (xc ! i) = hi ! i)"
  proof (intro allI impI)
    fix i assume i: "i < length x0"
    from a clamp_Inr [of x0 lo hi xc] i obtain v
      where v: "where_gt (x0 ! i) (lo ! i) = Inr v" "where_lt v (hi ! i) = Inr (xc ! i)"
      by blast
    from where_steps(1-3) [OF v] where_ordered [OF v]
    show "real_le_ext (xc ! i) (hi ! i) \<and>
         (ext_le_real (lo ! i) (x0 ! i) \<and> real_le_ext (x0 ! i) (hi ! i) \<longrightarrow> xc ! i = x0 ! i) \<and>
         (\<not> real_le_ext (x0 ! i) (hi ! i) \<longrightarrow> Fin (xc ! i) = hi ! i) \<and>
         (ext_le (lo ! i) (hi ! i) \<longrightarrow>
            ext_le_real (lo ! i) (xc ! i) \<and>
            (\<not> ext_le_real (lo ! i) (x0 ! i) \<longrightarrow> Fin (xc ! i) = lo ! i)) \<and>
         (\<not> ext_le (lo ! i) (hi ! i) \<longrightarrow> Fin (xc ! i) = hi ! i)"
      by blast
  qed
qed

theorem fit_clamps_in_two_stage_only_witness:
  "method_name (example_model ''one_stage'') = ''one_stage'' \<and>
   IvimModel_fit example_env (example_model ''one_stage'') [1, 1, 2, 2]
     = Inr \<lparr>model = example_model ''one_stage'', model_params = nd_of_list [1, -1, 5/10000, 0]\<rparr> \<and>
   method_name (example_model ''two_stage'') \<noteq> ''one_stage'' \<and>
   IvimModel_fit example_env (example_model ''two_stage'') [1, 1, 1, exp (- (3/5))]
     = Inr \<lparr>model = example_model ''two_stage'', model_params = nd_of_list [1, 0, 5/10000, 3/1000]\<rparr> \<and>
   clamp [-1, 2] ([Fin 0, Fin 0], [Fin 1, Fin 1]) = Inr [0, 1] \<and>
   ext_le ([Fin 0, Fin 0] ! 0) ([Fin 1, Fin 1] ! 0) \<and>
   \<not> ext_le_real ([Fin 0, Fin 0] ! 0) ([-1, 2] ! 0) \<and>
   Fin ([0, 1] ! 0) = [Fin 0, Fin 0] ! 0 \<and>
   \<not> real_le_ext ([-1, 2] ! 1) ([Fin 1, Fin 1] ! 1) \<and>
   Fin ([0, 1] ! 1) = [Fin 1, Fin 1] ! 1"
proof -
  have m1: "method_name (example_model ''one_stage'') = ''one_stage''"
    and m2: "method_name (example_model ''two_stage'') \<noteq> ''one_stage''"
    by (simp_all add: example_model_def)
  have c: "clamp [-1, 2] ([Fin 0, Fin 0], [Fin 1, Fin 1]) = Inr [0, 1]"
    by (simp add: clamp_def np_where2_def where_gt_def where_lt_def ebind_def)
  have bc: "bounds_check (example_model ''two_stage'') = default_bounds"
    by (simp add: bounds_check_def example_model_def)
  have cd: "clamp [1, 1 - exp (3/5), 5/10000, 3/1000] default_bounds = Inr [1, 0, 5/10000, 3/1000]"
    by (simp add: clamp_default)
  have b: "in_bounds [1, 0, 5/10000, 3/1000] default_bounds"
    by (simp add: in_bounds_def default_bounds_def)
  have o: "ext_le ([Fin 0, Fin 0] ! 0) ([Fin 1, Fin 1] ! 0)"
    and lw: "\<not> ext_le_real ([Fin 0, Fin 0] ! 0) ([-1, 2] ! 0)"
    and up: "\<not> real_le_ext ([-1, 2] ! 1) ([Fin 1, Fin 1] ! 1)"
    by simp_all
  note t1 = fit_clamps_in_two_stage_only [of "example_model ''one_stage''" example_env "[1, 1, 2, 2]"
      "[-1, 2]" "[Fin 0, Fin 0]" "[Fin 1, Fin 1]" "[0, 1]"]
  note t2 = fit_clamps_in_two_stage_only [of "example_model ''two_stage''" example_env
      "[1, 1, 1, exp (- (3/5))]" "[-1, 2]" "[Fin 0, Fin 0]" "[Fin 1, Fin 1]" "[0, 1]"]
  from t1 m1 have f1: "IvimModel_fit example_env (example_model ''one_stage'') [1, 1, 2, 2]
     = Inr \<lparr>model = example_model ''one_stage'', model_params = nd_of_list [1, -1, 5/10000, 0]\<rparr>"
    by (simp add: x0_ex ebind_def)
  from t2 m2 cd leastsq_ex [OF b, of "''two_stage''" "[1, 1, 1, exp (- (3/5))]"]
  have f2: "IvimModel_fit example_env (example_model ''two_stage'') [1, 1, 1, exp (- (3/5))]
     = Inr \<lparr>model = example_model ''two_stage'', model_params = nd_of_list [1, 0, 5/10000, 3/1000]\<rparr>"
    by (simp add: x0_exD ebind_def bc)
  from t1 c have all: "\<forall>i < length [-1, 2 :: real].
         (ext_le ([Fin 0, Fin 0] ! i) ([Fin 1, Fin 1] ! i) \<longrightarrow>
            (\<not> ext_le_real ([Fin 0, Fin 0] ! i) ([-1, 2] ! i) \<longrightarrow> Fin ([0, 1] ! i) = [Fin 0, Fin 0] ! i)) \<and>
         (\<not> real_le_ext ([-1, 2] ! i) ([Fin 1, Fin 1] ! i) \<longrightarrow> Fin ([0, 1] ! i) = [Fin 1, Fin 1] ! i)"
    by simp
  from all o lw have r0: "Fin ([0, 1 :: real] ! 0) = [Fin 0, Fin 0] ! 0" by simp
  from all up have r1: "Fin ([0, 1 :: real] ! 1) = [Fin 1, Fin 1] ! 1" by simp
  from m1 m2 f1 f2 c o lw up r0 r1 show ?thesis by blast
qed

text \<open>
  Against claim C2 as stated: with method \<open>one_stage\<close> the returned perfusion fraction
  \<open>-1\<close> lies outside the configured bounds.
\<close>

theorem fit_one_stage_out_of_bounds_counterexample:
  "bounds (example_model ''one_stage'') = Some default_bounds \<and>
   IvimModel_fit example_env (example_model ''one_stage'') [1, 1, 2, 2]
     = Inr \<lparr>model = example_model ''one_stage'', model_params = nd_of_list [1, -1, 5/10000, 0]\<rparr> \<and>
   \<not> in_bounds [1, -1, 5/10000, 0] default_bounds"
proof -
  have m: "method_name (example_model ''one_stage'') = ''one_stage''"
    by (simp add: example_model_def)
  show ?thesis
    unfolding fit_eq x0_ex using m
    by (simp add: ebind_def example_model_def in_bounds_def default_bounds_def)
qed

text \<open>
  Claim C2, amended. With a method other than \<open>one_stage\<close>, where bounded least squares
  is available and the solver returns points inside the bounds it is given, every
  parameter vector the fit returns lies within the model's bounds, ends included.
\<close>

theorem fit_two_stage_in_bounds:
  assumes "honours_bounds (least_squares env)" and "\<not> SCIPY_LESS_0_17 env"
    and "method_name self \<noteq> ''one_stage''" and "bounds self = Some b"
    and "IvimModel_fit env self data = Inr r"
  shows "\<exists>p. model_params r = nd_of_list p \<and> in_bounds p b"
proof -
  from assms(3,5) obtain x0 xc p where "IvimModel_leastsq env self data xc = Inr p"
    and r: "r = \<lparr>model = self, model_params = nd_of_list p\<rparr>"
    by (auto simp: fit_eq ebind_def split: sum.splits)
  from leastsq_bounded [OF assms(2) this(1)] assms(4)
  obtain a where "least_squares env (\<lambda>params. ivim_error params (gtab self) data) xc (Some b) a = Inr p"
    by auto
  with assms(1) have "in_bounds p b" unfolding honours_bounds_def by blast
  with r show ?thesis by auto
qed

theorem fit_two_stage_in_bounds_witness:
  "honours_bounds (least_squares example_env) \<and> \<not> SCIPY_LESS_0_17 example_env \<and>
   method_name (example_model ''two_stage'') \<noteq> ''one_stage'' \<and>
   bounds (example_model ''two_stage'') = Some default_bounds \<and>
   IvimModel_fit example_env (example_model ''two_stage'') [1, 1, 1, exp (- (3/5))]
     = Inr \<lparr>model = example_model ''two_stage'', model_params = nd_of_list [1, 0, 5/10000, 3/1000]\<rparr> \<and>
   (\<exists>p. nd_of_list [1, 0, 5/10000, 3/1000] = nd_of_list p \<and> in_bounds p default_bounds)"
proof -
  have h1: "honours_bounds (least_squares example_env)"
    by (simp add: example_env_def honours_bounds_start)
  have h2: "\<not> SCIPY_LESS_0_17 example_env" by (simp add: example_env_def)
  have h3: "method_name (example_model ''two_stage'') \<noteq> ''one_stage''"
    by (simp add: example_model_def)
  have h4: "bounds (example_model ''two_stage'') = Some default_bounds"
    by (simp add: example_model_def)
  from fit_two_stage_in_bounds [OF h1 h2 h3 h4 fit_exD] h1 h2 h3 h4 fit_exD
  show ?thesis by simp
qed






end
